theory Spec2Isabelle
  imports Main
begin

section \<open>Data model\<close>

text \<open>
  The views of \<^verbatim>\<open>blog/views.py\<close> work on the rows of five tables. Primary keys are
  natural numbers (the URL converter of a key accepts digits only), timestamps are integers
  on one time line, and a foreign key is stored as the key of the row it points to.

  Modelled from the spec: \<^verbatim>\<open>blog/models.py\<close> is not part of the sources, so the fields
  of the rows follow the data model of the specification: a Post has a required author and an
  optional category and location; a Comment has a required author and a required post.
\<close>

type_synonym pk = nat
type_synonym datetime = int

record user =
  user_pk :: pk
  username :: string

record category =
  category_pk :: pk
  category_title :: string
  slug :: string
  category_is_published :: bool

record location =
  location_pk :: pk
  location_name :: string
  location_is_published :: bool

record post =
  post_pk :: pk
  title :: string
  post_text :: string
  pub_date :: datetime
  is_published :: bool
  author :: pk
  category :: "pk option"
  location :: "pk option"

record comment =
  comment_pk :: pk
  comment_text :: string
  created_at :: datetime
  comment_author :: pk
  comment_post :: pk

record db =
  users :: "user list"
  categories :: "category list"
  locations :: "location list"
  posts :: "post list"
  comments :: "comment list"

section \<open>Requests, responses and errors\<close>

text \<open>
  A request carries its method, the user that the authentication middleware attached
  (\<open>None\<close> is the anonymous user, whose \<open>pk\<close> is Python's \<open>None\<close> and whose \<open>username\<close>
  is the empty string), the \<open>page\<close> query parameter and the submitted form data.
\<close>

datatype http_method = GET | POST

datatype page_arg = PageNumber int | PageLast | PageInvalid

record 'd request =
  request_method :: http_method
  user :: "user option"
  page :: "page_arg option"
  form_data :: 'd

datatype error = Http404 | AttributeError

datatype url = Url_post_detail pk | Url_profile string | Url_login

datatype context_data =
    DetailContext post "comment list"
  | IndexContext nat "(post \<times> nat) list"
  | CategoryContext category nat "(post \<times> nat) list"
  | ProfileContext user nat "(post \<times> nat) list"
  | PostFormContext post bool
  | PostDeleteContext post
  | CommentFormContext bool
  | CommentEditContext comment bool
  | CommentDeleteContext comment

datatype response =
    TemplateResponse string context_data
  | HttpResponseRedirect url
  | HttpResponseNotAllowed

definition request_user_pk :: "'d request \<Rightarrow> pk option" where
  "request_user_pk request = map_option user_pk (user request)"

definition request_user_username :: "'d request \<Rightarrow> string" where
  "request_user_username request = (case user request of None \<Rightarrow> [] | Some u \<Rightarrow> username u)"

section \<open>Queries\<close>

definition get_post :: "db \<Rightarrow> pk \<Rightarrow> post option" where
  "get_post d k = find (\<lambda>p. post_pk p = k) (posts d)"

definition get_comment :: "db \<Rightarrow> pk \<Rightarrow> comment option" where
  "get_comment d k = find (\<lambda>c. comment_pk c = k) (comments d)"

definition get_object_or_404 :: "'a option \<Rightarrow> error + 'a" where
  "get_object_or_404 r = (case r of None \<Rightarrow> Inl Http404 | Some x \<Rightarrow> Inr x)"

text \<open>
  \<open>post.category\<close> of a row loaded with \<open>select_related\<close>: the joined category row, or
  Python's \<open>None\<close> when the post has no category.
\<close>

definition post_category :: "db \<Rightarrow> post \<Rightarrow> category option" where
  "post_category d p =
     (case category p of None \<Rightarrow> None
      | Some k \<Rightarrow> find (\<lambda>c. category_pk c = k) (categories d))"

definition post_comments :: "db \<Rightarrow> post \<Rightarrow> comment list" where
  "post_comments d p = filter (\<lambda>c. comment_post c = post_pk p) (comments d)"

section \<open>The single-post detail view\<close>

text \<open>
  \<open>DetailView\<close> answers GET only; any other method is answered by
  \<open>http_method_not_allowed\<close>.
\<close>

definition PostDetailView_get :: "db \<Rightarrow> post \<Rightarrow> 'd request \<Rightarrow> error + response" where
  "PostDetailView_get d post_obj request =
     (case request_method request of
        GET \<Rightarrow> Inr (TemplateResponse ''blog/detail.html''
                      (DetailContext post_obj (post_comments d post_obj)))
      | POST \<Rightarrow> Inr HttpResponseNotAllowed)"

text \<open>
  The condition of \<open>PostDetailView.dispatch\<close> is a chain of Python \<open>or\<close>: the operands are
  evaluated from the left and the chain stops at the first true one. The last operand reads
  \<open>is_published\<close> of \<open>post_obj.category\<close>, which raises \<open>AttributeError\<close> on \<open>None\<close>.
\<close>

definition post_is_hidden :: "db \<Rightarrow> datetime \<Rightarrow> post \<Rightarrow> error + bool" where
  "post_is_hidden d now post_obj =
     (if \<not> is_published post_obj then Inr True
      else if pub_date post_obj > now then Inr True
      else (case post_category d post_obj of
              None \<Rightarrow> Inl AttributeError
            | Some c \<Rightarrow> Inr (\<not> category_is_published c)))"

definition PostDetailView_dispatch ::
  "db \<Rightarrow> datetime \<Rightarrow> 'd request \<Rightarrow> pk \<Rightarrow> error + response" where
  "PostDetailView_dispatch d now request post_id =
     (case get_object_or_404 (get_post d post_id) of
        Inl e \<Rightarrow> Inl e
      | Inr post_obj \<Rightarrow>
          (case post_is_hidden d now post_obj of
             Inl e \<Rightarrow> Inl e
           | Inr hidden \<Rightarrow>
               if hidden
               then (if request_user_pk request \<noteq> Some (author post_obj)
                     then Inl Http404
                     else PostDetailView_get d post_obj request)
               else PostDetailView_get d post_obj request))"

section \<open>Listings\<close>

text \<open>
  \<open>PostListMixin.get_queryset\<close>: every post with the number of its comments, ordered by
  \<open>pub_date\<close> descending. Rows with the same \<open>pub_date\<close> keep the order of the table.
\<close>

definition comment_count :: "db \<Rightarrow> post \<Rightarrow> nat" where
  "comment_count d p = length (post_comments d p)"

definition PostListMixin_get_queryset :: "db \<Rightarrow> (post \<times> nat) list" where
  "PostListMixin_get_queryset d =
     sort_key (\<lambda>row. - pub_date (fst row)) (map (\<lambda>p. (p, comment_count d p)) (posts d))"

text \<open>
  The filter \<open>pub_date__lt=timezone.now(), is_published=True, category__is_published=True\<close>.
  The lookup through \<open>category\<close> joins the category table, so a post without a category
  does not pass.
\<close>

definition published_filter :: "db \<Rightarrow> datetime \<Rightarrow> post \<Rightarrow> bool" where
  "published_filter d now p =
     (pub_date p < now \<and> is_published p \<and>
      (case post_category d p of None \<Rightarrow> False | Some c \<Rightarrow> category_is_published c))"

definition PostListView_get_queryset :: "db \<Rightarrow> datetime \<Rightarrow> (post \<times> nat) list" where
  "PostListView_get_queryset d now =
     filter (\<lambda>row. published_filter d now (fst row)) (PostListMixin_get_queryset d)"

text \<open>
  Pagination of \<open>ListView\<close> with \<open>paginate_by = 10\<close>, no orphans, an empty first page
  allowed: a page argument that is not a number (other than \<open>last\<close>) or that is out of range
  is answered with \<open>Http404\<close>.
\<close>

definition paginate_by :: nat where
  "paginate_by = 10"

definition num_pages :: "nat \<Rightarrow> nat" where
  "num_pages count = (max 1 count + paginate_by - 1) div paginate_by"

definition page_number :: "nat \<Rightarrow> 'd request \<Rightarrow> int option" where
  "page_number count request =
     (case page request of
        None \<Rightarrow> Some 1
      | Some (PageNumber n) \<Rightarrow> Some n
      | Some PageLast \<Rightarrow> Some (int (num_pages count))
      | Some PageInvalid \<Rightarrow> None)"

definition paginate_queryset :: "'a list \<Rightarrow> 'd request \<Rightarrow> error + nat \<times> 'a list" where
  "paginate_queryset queryset request =
     (case page_number (length queryset) request of
        None \<Rightarrow> Inl Http404
      | Some number \<Rightarrow>
          if number < 1 \<or> number > int (num_pages (length queryset)) then Inl Http404
          else Inr (nat number,
                    take paginate_by (drop ((nat number - 1) * paginate_by) queryset)))"

definition PostListView_dispatch :: "db \<Rightarrow> datetime \<Rightarrow> 'd request \<Rightarrow> error + response" where
  "PostListView_dispatch d now request =
     (case request_method request of
        POST \<Rightarrow> Inr HttpResponseNotAllowed
      | GET \<Rightarrow>
          (case paginate_queryset (PostListView_get_queryset d now) request of
             Inl e \<Rightarrow> Inl e
           | Inr (number, object_list) \<Rightarrow>
               Inr (TemplateResponse ''blog/index.html'' (IndexContext number object_list))))"

text \<open>
  \<open>CategoryListlView\<close>: \<open>dispatch\<close> looks the category up among the published ones by
  its slug; the queryset is the one of the home feed narrowed to that slug.
\<close>

definition CategoryListlView_get_queryset ::
  "db \<Rightarrow> datetime \<Rightarrow> category \<Rightarrow> (post \<times> nat) list" where
  "CategoryListlView_get_queryset d now cat =
     filter (\<lambda>row. case post_category d (fst row) of
                      None \<Rightarrow> False
                    | Some c \<Rightarrow> slug c = slug cat)
            (PostListView_get_queryset d now)"

definition CategoryListlView_dispatch ::
  "db \<Rightarrow> datetime \<Rightarrow> 'd request \<Rightarrow> string \<Rightarrow> error + response" where
  "CategoryListlView_dispatch d now request category_slug =
     (case get_object_or_404
             (find (\<lambda>c. slug c = category_slug) (filter category_is_published (categories d))) of
        Inl e \<Rightarrow> Inl e
      | Inr cat \<Rightarrow>
          (case request_method request of
             POST \<Rightarrow> Inr HttpResponseNotAllowed
           | GET \<Rightarrow>
               (case paginate_queryset (CategoryListlView_get_queryset d now cat) request of
                  Inl e \<Rightarrow> Inl e
                | Inr (number, object_list) \<Rightarrow>
                    Inr (TemplateResponse ''blog/category.html''
                           (CategoryContext cat number object_list)))))"

text \<open>
  \<open>ProfileListView.get_queryset\<close>: the posts whose author has the user name of the URL.
  For a requester with another user name the source calls \<open>queryset.filter(...)\<close> and drops
  the value: \<open>filter\<close> returns a new queryset and leaves \<open>queryset\<close> as it was.
\<close>

definition author_has_username :: "db \<Rightarrow> string \<Rightarrow> post \<Rightarrow> bool" where
  "author_has_username d name p =
     list_ex (\<lambda>u. user_pk u = author p \<and> username u = name) (users d)"

definition ProfileListView_get_queryset ::
  "db \<Rightarrow> datetime \<Rightarrow> 'd request \<Rightarrow> string \<Rightarrow> (post \<times> nat) list" where
  "ProfileListView_get_queryset d now request name =
     (let queryset = filter (\<lambda>row. author_has_username d name (fst row))
                            (PostListMixin_get_queryset d)
      in if request_user_username request \<noteq> name
         then (let dropped = filter (\<lambda>row. published_filter d now (fst row)) queryset
               in queryset)
         else queryset)"

definition ProfileListView_dispatch ::
  "db \<Rightarrow> datetime \<Rightarrow> 'd request \<Rightarrow> string \<Rightarrow> error + response" where
  "ProfileListView_dispatch d now request name =
     (case request_method request of
        POST \<Rightarrow> Inr HttpResponseNotAllowed
      | GET \<Rightarrow>
          (case paginate_queryset (ProfileListView_get_queryset d now request name) request of
             Inl e \<Rightarrow> Inl e
           | Inr (number, object_list) \<Rightarrow>
               (case get_object_or_404 (find (\<lambda>u. username u = name) (users d)) of
                  Inl e \<Rightarrow> Inl e
                | Inr profile \<Rightarrow>
                    Inr (TemplateResponse ''blog/profile.html''
                           (ProfileContext profile number object_list)))))"

section \<open>Access mixins\<close>

text \<open>
  A view that changes the database returns its response together with the database after the
  request; an exception leaves the database as it was.

  \<open>LoginRequiredMixin.dispatch\<close> sends a requester who is not authenticated to the login
  page and otherwise hands over to the next \<open>dispatch\<close> of the method resolution order,
  which from then on knows the authenticated user.
  \<open>IsAuthorMixin.dispatch\<close> loads the object of the view, compares the key of its author
  with the key of the requester, and redirects to \<open>blog:post_detail\<close> with the key of the
  loaded object when they differ.
\<close>

definition LoginRequiredMixin_dispatch ::
  "'d request \<Rightarrow> db \<Rightarrow> (user \<Rightarrow> error + response \<times> db) \<Rightarrow> error + response \<times> db" where
  "LoginRequiredMixin_dispatch request d super_dispatch =
     (case user request of
        None \<Rightarrow> Inr (HttpResponseRedirect Url_login, d)
      | Some u \<Rightarrow> super_dispatch u)"

definition IsAuthorMixin_dispatch ::
  "(error + 'o) \<Rightarrow> ('o \<Rightarrow> pk) \<Rightarrow> ('o \<Rightarrow> pk) \<Rightarrow> 'd request \<Rightarrow> db \<Rightarrow>
   (error + response \<times> db) \<Rightarrow> error + response \<times> db" where
  "IsAuthorMixin_dispatch get_object object_author object_pk request d super_dispatch =
     (case get_object of
        Inl e \<Rightarrow> Inl e
      | Inr obj \<Rightarrow>
          if Some (object_author obj) \<noteq> request_user_pk request
          then Inr (HttpResponseRedirect (Url_post_detail (object_pk obj)), d)
          else super_dispatch)"

section \<open>Editing and deleting a post\<close>

text \<open>
  Modelled from the spec: \<^verbatim>\<open>blog/forms.py\<close> is not part of the sources. A form is given
  by its validation \<open>is_valid\<close> and, for \<open>PostForm\<close>, by \<open>construct\<close>, which writes the
  cleaned data into the instance; the primary key of a row is not a form field. Deleting a
  post deletes its comments.
\<close>

definition update_post :: "post \<Rightarrow> db \<Rightarrow> db" where
  "update_post new d =
     d\<lparr>posts := map (\<lambda>p. if post_pk p = post_pk new then new else p) (posts d)\<rparr>"

definition delete_post :: "post \<Rightarrow> db \<Rightarrow> db" where
  "delete_post obj d =
     d\<lparr>posts := filter (\<lambda>p. post_pk p \<noteq> post_pk obj) (posts d),
       comments := filter (\<lambda>c. comment_post c \<noteq> post_pk obj) (comments d)\<rparr>"

definition PostUpdateView_handler ::
  "('d \<Rightarrow> bool) \<Rightarrow> ('d \<Rightarrow> post \<Rightarrow> post) \<Rightarrow> db \<Rightarrow> 'd request \<Rightarrow> pk \<Rightarrow>
   error + response \<times> db" where
  "PostUpdateView_handler is_valid construct d request post_id =
     (case get_object_or_404 (get_post d post_id) of
        Inl e \<Rightarrow> Inl e
      | Inr obj \<Rightarrow>
          (case request_method request of
             GET \<Rightarrow> Inr (TemplateResponse ''blog/create.html'' (PostFormContext obj False), d)
           | POST \<Rightarrow>
               if is_valid (form_data request)
               then (let saved = (construct (form_data request) obj)\<lparr>post_pk := post_pk obj\<rparr>
                     in Inr (HttpResponseRedirect (Url_post_detail (post_pk saved)),
                             update_post saved d))
               else Inr (TemplateResponse ''blog/create.html'' (PostFormContext obj True), d)))"

definition PostUpdateView_dispatch ::
  "('d \<Rightarrow> bool) \<Rightarrow> ('d \<Rightarrow> post \<Rightarrow> post) \<Rightarrow> db \<Rightarrow> 'd request \<Rightarrow> pk \<Rightarrow>
   error + response \<times> db" where
  "PostUpdateView_dispatch is_valid construct d request post_id =
     IsAuthorMixin_dispatch (get_object_or_404 (get_post d post_id)) author post_pk request d
       (LoginRequiredMixin_dispatch request d
          (\<lambda>u. PostUpdateView_handler is_valid construct d request post_id))"

definition PostDeleteView_handler :: "db \<Rightarrow> 'd request \<Rightarrow> pk \<Rightarrow> error + response \<times> db" where
  "PostDeleteView_handler d request post_id =
     (case get_object_or_404 (get_post d post_id) of
        Inl e \<Rightarrow> Inl e
      | Inr obj \<Rightarrow>
          (case request_method request of
             GET \<Rightarrow> Inr (TemplateResponse ''blog/create.html'' (PostDeleteContext obj), d)
           | POST \<Rightarrow>
               Inr (HttpResponseRedirect (Url_profile (request_user_username request)),
                    delete_post obj d)))"

definition PostDeleteView_dispatch :: "db \<Rightarrow> 'd request \<Rightarrow> pk \<Rightarrow> error + response \<times> db" where
  "PostDeleteView_dispatch d request post_id =
     IsAuthorMixin_dispatch (get_object_or_404 (get_post d post_id)) author post_pk request d
       (LoginRequiredMixin_dispatch request d
          (\<lambda>u. PostDeleteView_handler d request post_id))"

section \<open>Comments\<close>

text \<open>
  Modelled from the spec: \<open>CommentForm\<close> carries the body text of the comment. A new row
  gets a key that no row of the table has, and its creation time is the time of the request.
\<close>

definition new_pk :: "pk list \<Rightarrow> pk" where
  "new_pk ks = Suc (fold max ks 0)"

definition CommentCreateView_handler ::
  "(string \<Rightarrow> bool) \<Rightarrow> db \<Rightarrow> datetime \<Rightarrow> string request \<Rightarrow> user \<Rightarrow> post \<Rightarrow>
   error + response \<times> db" where
  "CommentCreateView_handler is_valid d now request u post_obj =
     (case request_method request of
        GET \<Rightarrow> Inr (TemplateResponse ''blog/comment_form.html'' (CommentFormContext False), d)
      | POST \<Rightarrow>
          if is_valid (form_data request)
          then (let instance = \<lparr>comment_pk = new_pk (map comment_pk (comments d)),
                                 comment_text = form_data request,
                                 created_at = now,
                                 comment_author = user_pk u,
                                 comment_post = post_pk post_obj\<rparr>
                in Inr (HttpResponseRedirect (Url_post_detail (post_pk post_obj)),
                        d\<lparr>comments := comments d @ [instance]\<rparr>))
          else Inr (TemplateResponse ''blog/comment_form.html'' (CommentFormContext True), d))"

text \<open>
  \<open>CommentCreateView.dispatch\<close> is the first \<open>dispatch\<close> of its class: it looks the post
  up before \<open>LoginRequiredMixin\<close> runs.
\<close>

definition CommentCreateView_dispatch ::
  "(string \<Rightarrow> bool) \<Rightarrow> db \<Rightarrow> datetime \<Rightarrow> string request \<Rightarrow> pk \<Rightarrow> error + response \<times> db" where
  "CommentCreateView_dispatch is_valid d now request post_id =
     (case get_object_or_404 (get_post d post_id) of
        Inl e \<Rightarrow> Inl e
      | Inr post_obj \<Rightarrow>
          LoginRequiredMixin_dispatch request d
            (\<lambda>u. CommentCreateView_handler is_valid d now request u post_obj))"

definition CommentMixin_dispatch ::
  "db \<Rightarrow> pk \<Rightarrow> (error + response \<times> db) \<Rightarrow> error + response \<times> db" where
  "CommentMixin_dispatch d post_id super_dispatch =
     (case get_object_or_404 (get_post d post_id) of
        Inl e \<Rightarrow> Inl e
      | Inr post_obj \<Rightarrow> super_dispatch)"

definition update_comment :: "comment \<Rightarrow> db \<Rightarrow> db" where
  "update_comment new d =
     d\<lparr>comments := map (\<lambda>c. if comment_pk c = comment_pk new then new else c) (comments d)\<rparr>"

definition delete_comment :: "comment \<Rightarrow> db \<Rightarrow> db" where
  "delete_comment obj d =
     d\<lparr>comments := filter (\<lambda>c. comment_pk c \<noteq> comment_pk obj) (comments d)\<rparr>"

definition CommentUpdateView_handler ::
  "(string \<Rightarrow> bool) \<Rightarrow> db \<Rightarrow> string request \<Rightarrow> pk \<Rightarrow> error + response \<times> db" where
  "CommentUpdateView_handler is_valid d request comment_id =
     (case get_object_or_404 (get_comment d comment_id) of
        Inl e \<Rightarrow> Inl e
      | Inr obj \<Rightarrow>
          (case request_method request of
             GET \<Rightarrow> Inr (TemplateResponse ''blog/comment.html'' (CommentEditContext obj False), d)
           | POST \<Rightarrow>
               if is_valid (form_data request)
               then (let saved = obj\<lparr>comment_text := form_data request\<rparr>
                     in Inr (HttpResponseRedirect (Url_post_detail (comment_post saved)),
                             update_comment saved d))
               else Inr (TemplateResponse ''blog/comment.html'' (CommentEditContext obj True),
                         d)))"

definition CommentDeleteView_handler ::
  "db \<Rightarrow> 'd request \<Rightarrow> pk \<Rightarrow> error + response \<times> db" where
  "CommentDeleteView_handler d request comment_id =
     (case get_object_or_404 (get_comment d comment_id) of
        Inl e \<Rightarrow> Inl e
      | Inr obj \<Rightarrow>
          (case request_method request of
             GET \<Rightarrow> Inr (TemplateResponse ''blog/comment.html'' (CommentDeleteContext obj), d)
           | POST \<Rightarrow>
               Inr (HttpResponseRedirect (Url_post_detail (comment_post obj)),
                    delete_comment obj d)))"

text \<open>
  Both comment views inherit \<open>LoginRequiredMixin, IsAuthorMixin, CommentMixin\<close> in this
  order, so the login check runs first, then the author check on the comment, then the lookup
  of the post of the URL.
\<close>

definition CommentUpdateView_dispatch ::
  "(string \<Rightarrow> bool) \<Rightarrow> db \<Rightarrow> string request \<Rightarrow> pk \<Rightarrow> pk \<Rightarrow> error + response \<times> db" where
  "CommentUpdateView_dispatch is_valid d request post_id comment_id =
     LoginRequiredMixin_dispatch request d
       (\<lambda>u. IsAuthorMixin_dispatch (get_object_or_404 (get_comment d comment_id))
              comment_author comment_pk request d
              (CommentMixin_dispatch d post_id
                 (CommentUpdateView_handler is_valid d request comment_id)))"

definition CommentDeleteView_dispatch ::
  "db \<Rightarrow> 'd request \<Rightarrow> pk \<Rightarrow> pk \<Rightarrow> error + response \<times> db" where
  "CommentDeleteView_dispatch d request post_id comment_id =
     LoginRequiredMixin_dispatch request d
       (\<lambda>u. IsAuthorMixin_dispatch (get_object_or_404 (get_comment d comment_id))
              comment_author comment_pk request d
              (CommentMixin_dispatch d post_id (CommentDeleteView_handler d request comment_id)))"

section \<open>An example database\<close>

text \<open>
  Two users and five posts around the request time \<open>200\<close>: a draft of bob with one
  comment, a published post of bob without a category, a published post of bob dated exactly
  at the request time, a published post of alice in the past, and a post of bob dated in the
  future in a category that is not published.
\<close>

definition alice :: user where
  "alice = \<lparr>user_pk = 1, username = ''alice''\<rparr>"

definition bob :: user where
  "bob = \<lparr>user_pk = 2, username = ''bob''\<rparr>"

definition travel :: category where
  "travel = \<lparr>category_pk = 1, category_title = ''Travel'', slug = ''travel'',
             category_is_published = True\<rparr>"

definition secret :: category where
  "secret = \<lparr>category_pk = 2, category_title = ''Secret'', slug = ''secret'',
             category_is_published = False\<rparr>"

definition draft_post :: post where
  "draft_post = \<lparr>post_pk = 5, title = ''Draft'', post_text = ''d'', pub_date = 100,
                 is_published = False, author = 2, category = Some 1, location = None\<rparr>"

definition uncategorised_post :: post where
  "uncategorised_post = \<lparr>post_pk = 6, title = ''Loose'', post_text = ''l'', pub_date = 50,
                 is_published = True, author = 2, category = None, location = None\<rparr>"

definition now_post :: post where
  "now_post = \<lparr>post_pk = 7, title = ''Now'', post_text = ''n'', pub_date = 200,
                 is_published = True, author = 2, category = Some 1, location = None\<rparr>"

definition past_post :: post where
  "past_post = \<lparr>post_pk = 8, title = ''Past'', post_text = ''p'', pub_date = 10,
                 is_published = True, author = 1, category = Some 1, location = None\<rparr>"

definition future_post :: post where
  "future_post = \<lparr>post_pk = 9, title = ''Future'', post_text = ''f'', pub_date = 300,
                 is_published = False, author = 2, category = Some 2, location = None\<rparr>"

definition draft_comment :: comment where
  "draft_comment = \<lparr>comment_pk = 3, comment_text = ''first'', created_at = 150,
                    comment_author = 2, comment_post = 5\<rparr>"

definition example_db :: db where
  "example_db = \<lparr>users = [alice, bob], categories = [travel, secret], locations = [],
                  posts = [draft_post, uncategorised_post, now_post, past_post, future_post],
                  comments = [draft_comment]\<rparr>"

definition anonymous_get :: "unit request" where
  "anonymous_get = \<lparr>request_method = GET, user = None, page = None, form_data = ()\<rparr>"

definition bob_get :: "unit request" where
  "bob_get = \<lparr>request_method = GET, user = Some bob, page = None, form_data = ()\<rparr>"

definition alice_post :: "string request" where
  "alice_post = \<lparr>request_method = POST, user = Some alice, page = None, form_data = ''hello''\<rparr>"

definition anonymous_post :: "string request" where
  "anonymous_post = \<lparr>request_method = POST, user = None, page = None, form_data = ''hello''\<rparr>"

definition nonempty :: "string \<Rightarrow> bool" where
  "nonempty s = (s \<noteq> [])"

definition set_text :: "string \<Rightarrow> post \<Rightarrow> post" where
  "set_text s p = p\<lparr>post_text := s\<rparr>"

text \<open>
  A database with two published posts of the same date, and one with twelve published posts
  dated 1 to 12 and a comment on post 2, which fills one page of ten and a second page of two.
\<close>

definition tie_first :: post where
  "tie_first = \<lparr>post_pk = 1, title = ''One'', post_text = ''a'', pub_date = 100,
                 is_published = True, author = 1, category = Some 1, location = None\<rparr>"

definition tie_second :: post where
  "tie_second = \<lparr>post_pk = 2, title = ''Two'', post_text = ''b'', pub_date = 100,
                 is_published = True, author = 1, category = Some 1, location = None\<rparr>"

definition tie_db :: db where
  "tie_db = \<lparr>users = [alice], categories = [travel], locations = [],
              posts = [tie_first, tie_second], comments = []\<rparr>"

definition feed_post :: "nat \<Rightarrow> post" where
  "feed_post i = \<lparr>post_pk = i, title = ''Post'', post_text = ''t'', pub_date = int i,
                   is_published = True, author = 1, category = Some 1, location = None\<rparr>"

definition feed_comment :: comment where
  "feed_comment = \<lparr>comment_pk = 1, comment_text = ''c'', created_at = 5,
                   comment_author = 1, comment_post = 2\<rparr>"

definition feed_db :: db where
  "feed_db = \<lparr>users = [alice], categories = [travel], locations = [],
               posts = map feed_post [1, 2, 3, 4, 5, 6, 7, 8, 9, 10, 11, 12],
               comments = [feed_comment]\<rparr>"

definition get_page :: "page_arg option \<Rightarrow> unit request" where
  "get_page a = \<lparr>request_method = GET, user = None, page = a, form_data = ()\<rparr>"

definition post_page :: "unit request" where
  "post_page = \<lparr>request_method = POST, user = None, page = None, form_data = ()\<rparr>"

section \<open>Facts about the queries\<close>

lemmas example_defs =
  alice_def bob_def travel_def secret_def draft_post_def uncategorised_post_def now_post_def
  past_post_def future_post_def draft_comment_def example_db_def anonymous_get_def bob_get_def
  alice_post_def anonymous_post_def nonempty_def set_text_def

lemmas view_defs =
  get_post_def get_comment_def get_object_or_404_def post_category_def post_comments_def
  request_user_pk_def request_user_username_def
  PostDetailView_get_def post_is_hidden_def PostDetailView_dispatch_def
  comment_count_def PostListMixin_get_queryset_def published_filter_def
  PostListView_get_queryset_def paginate_by_def num_pages_def page_number_def
  paginate_queryset_def PostListView_dispatch_def CategoryListlView_get_queryset_def
  CategoryListlView_dispatch_def author_has_username_def ProfileListView_get_queryset_def
  ProfileListView_dispatch_def LoginRequiredMixin_dispatch_def IsAuthorMixin_dispatch_def
  update_post_def delete_post_def PostUpdateView_handler_def PostUpdateView_dispatch_def
  PostDeleteView_handler_def PostDeleteView_dispatch_def new_pk_def
  CommentCreateView_handler_def CommentCreateView_dispatch_def CommentMixin_dispatch_def
  update_comment_def delete_comment_def CommentUpdateView_handler_def
  CommentDeleteView_handler_def CommentUpdateView_dispatch_def CommentDeleteView_dispatch_def

lemma get_post_Some: "get_post d k = Some p \<Longrightarrow> post_pk p = k \<and> p \<in> set (posts d)"
  by (auto simp: get_post_def find_Some_iff in_set_conv_nth)


lemma get_comment_Some:
  "get_comment d k = Some c \<Longrightarrow> comment_pk c = k \<and> c \<in> set (comments d)"
  by (auto simp: get_comment_def find_Some_iff in_set_conv_nth)

lemma fold_max_ge: "k \<in> set ks \<Longrightarrow> k \<le> fold max ks (m::nat)"
proof (induction ks arbitrary: m)
  case Nil
  then show ?case by simp
next
  case (Cons a ks)
  have mono: "\<And>n. n \<le> fold max ks (n::nat)"
  proof -
    fix n :: nat show "n \<le> fold max ks n"
      by (induction ks arbitrary: n) (auto intro: order_trans [OF max.cobounded2])
  qed
  show ?case
  proof (cases "k = a")
    case True
    have "a \<le> max a m" by simp
    also have "\<dots> \<le> fold max ks (max a m)" by (rule mono)
    finally show ?thesis using True by simp
  next
    case False
    with Cons.prems have "k \<in> set ks" by simp
    then show ?thesis using Cons.IH by simp
  qed
qed

lemma new_pk_fresh: "new_pk ks \<notin> set ks"
proof
  assume "new_pk ks \<in> set ks"
  then have "new_pk ks \<le> fold max ks 0" by (rule fold_max_ge)
  then show False by (simp add: new_pk_def)
qed

lemma PostListMixin_queryset_sorted:
  "sorted_wrt (\<lambda>a b. pub_date (fst b) \<le> pub_date (fst a)) (PostListMixin_get_queryset d)"
proof -
  have "sorted (map (\<lambda>row. - pub_date (fst row)) (PostListMixin_get_queryset d))"
    unfolding PostListMixin_get_queryset_def by (rule sorted_sort_key)
  then show ?thesis by (simp add: sorted_map)
qed

lemma PostListMixin_queryset_annotated:
  "row \<in> set (PostListMixin_get_queryset d) \<Longrightarrow>
     fst row \<in> set (posts d) \<and> snd row = comment_count d (fst row)"
  by (auto simp: PostListMixin_get_queryset_def)

lemma PostListView_queryset_sorted:
  "sorted_wrt (\<lambda>a b. pub_date (fst b) \<le> pub_date (fst a)) (PostListView_get_queryset d now)"
  unfolding PostListView_get_queryset_def
  by (rule sorted_wrt_filter) (rule PostListMixin_queryset_sorted)

lemma paginate_queryset_page:
  "paginate_queryset qs request = Inr (n, object_list) \<Longrightarrow>
     1 \<le> n \<and> n \<le> num_pages (length qs)
     \<and> object_list = take paginate_by (drop ((n - 1) * paginate_by) qs)"
  by (auto simp: paginate_queryset_def split: option.splits if_splits)

lemma paginate_queryset_default:
  "page request = None \<Longrightarrow> paginate_queryset qs request = Inr (1, take paginate_by qs)"
  by (simp add: paginate_queryset_def page_number_def num_pages_def paginate_by_def)

lemma sorted_wrt_distinct_strict:
  "sorted_wrt (\<lambda>a b. f b \<le> f a) xs \<Longrightarrow> distinct (map f xs) \<Longrightarrow>
     sorted_wrt (\<lambda>a b. (f b :: int) < f a) xs"
proof (induction xs)
  case Nil
  then show ?case by simp
next
  case (Cons x xs)
  then show ?case by (auto simp: order_less_le image_iff)
qed

lemma distinct_map_insort_key:
  "distinct (map f (insort_key g x xs)) = (f x \<notin> f ` set xs \<and> distinct (map f xs))"
  by (induction xs) (auto simp: image_iff set_insort_key)

lemma distinct_map_sort_key:
  "distinct (map f (sort_key g xs)) = distinct (map f xs)"
  by (induction xs) (simp_all add: distinct_map_insort_key)

lemma PostListMixin_queryset_distinct:
  assumes "distinct (map pub_date (posts d))"
  shows "distinct (map (\<lambda>row. pub_date (fst row)) (PostListMixin_get_queryset d))"
  using assms
  by (simp add: PostListMixin_get_queryset_def distinct_map_sort_key comp_def)

lemma PostListView_queryset_strict:
  assumes "distinct (map pub_date (posts d))"
  shows "sorted_wrt (\<lambda>a b. pub_date (fst b) < pub_date (fst a)) (PostListView_get_queryset d now)"
proof -
  have "distinct (map (\<lambda>row. pub_date (fst row)) (PostListView_get_queryset d now))"
    unfolding PostListView_get_queryset_def
    by (rule distinct_map_filter) (rule PostListMixin_queryset_distinct [OF assms])
  with PostListView_queryset_sorted [of d now] show ?thesis
    by (rule sorted_wrt_distinct_strict)
qed

lemma paginate_queryset_number:
  assumes "page request = Some (PageNumber k)" and "1 \<le> k"
    and "k \<le> int ((max 1 (length qs) + 9) div 10)"
  shows "paginate_queryset qs request
           = Inr (nat k, take 10 (drop ((nat k - 1) * 10) qs))"
  using assms
  by (simp add: paginate_queryset_def page_number_def num_pages_def paginate_by_def)

lemma paginate_queryset_out_of_range:
  assumes "page request = Some (PageNumber k)"
    and "k < 1 \<or> int ((max 1 (length qs) + 9) div 10) < k"
  shows "paginate_queryset qs request = Inl Http404"
  using assms
  by (auto simp: paginate_queryset_def page_number_def num_pages_def paginate_by_def)

lemma paginate_queryset_last:
  assumes "page request = Some PageLast"
  shows "paginate_queryset qs request
           = Inr ((max 1 (length qs) + 9) div 10,
                  take 10 (drop (((max 1 (length qs) + 9) div 10 - 1) * 10) qs))"
proof -
  have "1 \<le> (max 1 (length qs) + 9) div 10" by (cases "length qs") (simp_all add: max_def)
  with assms show ?thesis
    by (simp add: paginate_queryset_def page_number_def num_pages_def paginate_by_def
          add.commute)
qed

lemma paginate_queryset_invalid:
  "page request = Some PageInvalid \<Longrightarrow> paginate_queryset qs request = Inl Http404"
  by (simp add: paginate_queryset_def page_number_def)

lemma PostListView_queryset_rows:
  "PostListView_get_queryset d now
     = sort_key (\<lambda>row. - pub_date (fst row))
         (map (\<lambda>p. (p, comment_count d p)) (filter (published_filter d now) (posts d)))"
  by (simp add: PostListView_get_queryset_def PostListMixin_get_queryset_def filter_sort
        filter_map comp_def)

lemma PostListView_queryset_set:
  "set (PostListView_get_queryset d now)
     = (\<lambda>p. (p, length (filter (\<lambda>c. comment_post c = post_pk p) (comments d))))
         ` {p \<in> set (posts d). published_filter d now p}"
  by (simp add: PostListView_queryset_rows comment_count_def post_comments_def)

lemma PostListView_queryset_length:
  "length (PostListView_get_queryset d now)
     = length (filter (published_filter d now) (posts d))"
  by (simp add: PostListView_queryset_rows)

lemma feed_post_fields:
  "post_pk (feed_post i) = i" "pub_date (feed_post i) = int i" "is_published (feed_post i)"
  "category (feed_post i) = Some 1" "author (feed_post i) = 1"
  by (simp_all add: feed_post_def)

lemma feed_queryset:
  "PostListView_get_queryset feed_db 100
     = [(feed_post 12, 0), (feed_post 11, 0), (feed_post 10, 0), (feed_post 9, 0),
        (feed_post 8, 0), (feed_post 7, 0), (feed_post 6, 0), (feed_post 5, 0),
        (feed_post 4, 0), (feed_post 3, 0), (feed_post 2, 1), (feed_post 1, 0)]"
  by (simp add: PostListView_get_queryset_def PostListMixin_get_queryset_def
        published_filter_def post_category_def comment_count_def post_comments_def
        feed_db_def feed_comment_def travel_def feed_post_fields)

section \<open>What the views do on every input\<close>

text \<open>
  The detail view on a post that has a category, and on a published post of the past that has
  none; the profile queryset, which is the same for every requester; the time bound of the
  home queryset; the answers of the edit and delete views to a requester who is anonymous or
  not the author.
\<close>

lemma detail_hidden_post_not_found:
  assumes "get_post d post_id = Some p" and "post_category d p = Some c"
    and "request_user_pk request \<noteq> Some (author p)"
    and "\<not> (is_published p \<and> pub_date p \<le> now \<and> category_is_published c)"
  shows "PostDetailView_dispatch d now request post_id = Inl Http404"
  using assms
  by (auto simp: PostDetailView_dispatch_def post_is_hidden_def get_object_or_404_def)

lemma detail_author_always_served:
  assumes "get_post d post_id = Some p" and "post_category d p = Some c"
    and "request_user_pk request = Some (author p)" and "request_method request = GET"
  shows "PostDetailView_dispatch d now request post_id
           = Inr (TemplateResponse ''blog/detail.html'' (DetailContext p (post_comments d p)))"
  using assms
  by (auto simp: PostDetailView_dispatch_def post_is_hidden_def get_object_or_404_def
        PostDetailView_get_def)

lemma detail_draft_served_to_author:
  assumes "get_post d post_id = Some p" and "\<not> is_published p \<or> now < pub_date p"
    and "request_user_pk request = Some (author p)" and "request_method request = GET"
  shows "PostDetailView_dispatch d now request post_id
           = Inr (TemplateResponse ''blog/detail.html'' (DetailContext p (post_comments d p)))"
  using assms
  by (auto simp: PostDetailView_dispatch_def post_is_hidden_def get_object_or_404_def
        PostDetailView_get_def)

lemma detail_uncategorised_post_raises:
  assumes "get_post d post_id = Some p" and "is_published p" and "pub_date p \<le> now"
    and "post_category d p = None"
  shows "PostDetailView_dispatch d now request post_id = Inl AttributeError"
  using assms
  by (auto simp: PostDetailView_dispatch_def post_is_hidden_def get_object_or_404_def)

lemma profile_queryset_ignores_requester:
  "ProfileListView_get_queryset d now request name
     = filter (\<lambda>row. author_has_username d name (fst row)) (PostListMixin_get_queryset d)"
  by (simp add: ProfileListView_get_queryset_def Let_def)

lemma home_queryset_strictly_past:
  "row \<in> set (PostListView_get_queryset d now) \<Longrightarrow> pub_date (fst row) < now"
  by (simp add: PostListView_get_queryset_def published_filter_def)

lemma anonymous_comment_edit_goes_to_login:
  "user request = None \<Longrightarrow>
     CommentUpdateView_dispatch is_valid d request post_id comment_id
       = Inr (HttpResponseRedirect Url_login, d)
   \<and> CommentDeleteView_dispatch d request post_id comment_id
       = Inr (HttpResponseRedirect Url_login, d)"
  by (simp add: CommentUpdateView_dispatch_def CommentDeleteView_dispatch_def
        LoginRequiredMixin_dispatch_def)

lemma anonymous_post_edit_goes_to_detail:
  "user request = None \<Longrightarrow> get_post d post_id = Some p \<Longrightarrow>
     PostUpdateView_dispatch is_valid construct d request post_id
       = Inr (HttpResponseRedirect (Url_post_detail post_id), d)
   \<and> PostDeleteView_dispatch d request post_id
       = Inr (HttpResponseRedirect (Url_post_detail post_id), d)"
  by (auto simp: PostUpdateView_dispatch_def PostDeleteView_dispatch_def
        IsAuthorMixin_dispatch_def get_object_or_404_def request_user_pk_def
        dest: get_post_Some)

lemma non_author_comment_edit_target:
  "user request = Some u \<Longrightarrow> get_comment d comment_id = Some c \<Longrightarrow>
   comment_author c \<noteq> user_pk u \<Longrightarrow>
     CommentUpdateView_dispatch is_valid d request post_id comment_id
       = Inr (HttpResponseRedirect (Url_post_detail comment_id), d)
   \<and> CommentDeleteView_dispatch d request post_id comment_id
       = Inr (HttpResponseRedirect (Url_post_detail comment_id), d)"
  by (auto simp: CommentUpdateView_dispatch_def CommentDeleteView_dispatch_def
        IsAuthorMixin_dispatch_def LoginRequiredMixin_dispatch_def get_object_or_404_def
        request_user_pk_def dest: get_comment_Some)

section \<open>The detail view\<close>

text \<open>
  C1. A viewer who is not the author gets a not-found answer for a post that fails the
  visibility rule, and the author of a post always gets its detail page. The second half does
  not hold for a published post of the past that has no category: the check of the view reads
  \<open>is_published\<close> of the missing category and the request of the author ends in
  \<open>AttributeError\<close>. The theorem runs the view on that request.
\<close>

theorem author_detail_of_uncategorised_post_raises:
  "author uncategorised_post = user_pk bob \<and> user bob_get = Some bob \<and> request_method bob_get = GET
   \<and> get_post example_db 6 = Some uncategorised_post
   \<and> PostDetailView_dispatch example_db 200 bob_get 6 = Inl AttributeError"
  by (simp add: example_defs view_defs)

text \<open>
  C6. A published post of the past without a category is publicly visible. The view raises
  \<open>AttributeError\<close> on it instead, for the anonymous viewer as for anyone else.
\<close>

theorem detail_of_uncategorised_post_raises:
  "get_post example_db 6 = Some uncategorised_post
   \<and> is_published uncategorised_post \<and> pub_date uncategorised_post \<le> 200
   \<and> category uncategorised_post = None
   \<and> PostDetailView_dispatch example_db 200 anonymous_get 6 = Inl AttributeError"
  by (simp add: example_defs view_defs)

section \<open>The feeds\<close>

text \<open>
  C2. The profile feed shows a viewer who is not the owner only the published posts of the
  past in published categories. The view computes that filter and drops its value, so the
  anonymous viewer of bob's profile is shown bob's draft and bob's future post.
\<close>

theorem profile_feed_shows_drafts_to_others:
  "user anonymous_get = None
   \<and> ProfileListView_dispatch example_db 200 anonymous_get ''bob''
       = Inr (TemplateResponse ''blog/profile.html''
               (ProfileContext bob 1
                  [(future_post, 0), (now_post, 0), (draft_post, 1), (uncategorised_post, 0)]))
   \<and> \<not> is_published draft_post \<and> pub_date future_post > 200"
  by (simp add: example_defs view_defs)

text \<open>
  C7. The listings include a post whose \<open>pub_date\<close> equals the time of the request.
  The filter of the home feed and of the category feed is \<open>pub_date__lt\<close>, strictly
  earlier, so such a post is left out, while the detail view of the same post answers every
  viewer.
\<close>

theorem listing_excludes_post_dated_now:
  "pub_date now_post = 200 \<and> is_published now_post
   \<and> post_category example_db now_post = Some travel \<and> category_is_published travel
   \<and> PostListView_dispatch example_db 200 anonymous_get
       = Inr (TemplateResponse ''blog/index.html'' (IndexContext 1 [(past_post, 0)]))
   \<and> CategoryListlView_dispatch example_db 200 anonymous_get ''travel''
       = Inr (TemplateResponse ''blog/category.html'' (CategoryContext travel 1 [(past_post, 0)]))
   \<and> PostDetailView_dispatch example_db 200 anonymous_get 7
       = Inr (TemplateResponse ''blog/detail.html'' (DetailContext now_post []))"
  by (simp add: example_defs view_defs)

text \<open>
  C8, as stated. The home feed is ordered strictly by \<open>pub_date\<close> descending. The
  queryset is ordered by \<open>-pub_date\<close> and by nothing else, so two published posts of the
  same date are listed one after the other: the order of the feed is descending, and strictly
  descending only between posts of different dates.
\<close>

theorem home_feed_equal_dates_counterexample:
  "PostListView_dispatch tie_db 200 (get_page None)
     = Inr (TemplateResponse ''blog/index.html''
             (IndexContext 1 [(tie_first, 0), (tie_second, 0)]))
   \<and> \<not> pub_date tie_second < pub_date tie_first"
  by (simp add: tie_db_def tie_first_def tie_second_def get_page_def alice_def travel_def
        view_defs)

text \<open>
  C8, amended. For every request to the home feed: the rows of the queryset are the posts
  that pass the filter of the listing, each with the number of its comments, in descending
  order of \<open>pub_date\<close> (strictly descending when no two posts have the same date), and they
  are served ten to a page. A GET request without a page argument is answered with the first
  ten rows; a GET request for page \<open>k\<close>, from 1 to the number of pages, is answered with
  page \<open>k\<close>, rows \<open>10 (k - 1)\<close> up to \<open>10 k\<close> of the queryset; \<open>last\<close> is the last
  page; a page number out of this range and a page argument that is not a number are answered
  with not-found; a POST request is answered by \<open>http_method_not_allowed\<close>. The number of
  pages is the number of rows divided by ten and rounded up, and 1 for an empty feed.
\<close>

theorem home_feed_ordered_annotated_paginated:
  "(request_method request = GET \<and> page request = None \<longrightarrow>
      PostListView_dispatch d now request
        = Inr (TemplateResponse ''blog/index.html''
                 (IndexContext 1 (take 10 (PostListView_get_queryset d now)))))
   \<and> (\<forall>k. request_method request = GET \<and> page request = Some (PageNumber k) \<and> 1 \<le> k
          \<and> k \<le> int ((max 1 (length (PostListView_get_queryset d now)) + 9) div 10) \<longrightarrow>
      PostListView_dispatch d now request
        = Inr (TemplateResponse ''blog/index.html''
                 (IndexContext (nat k)
                    (take 10 (drop ((nat k - 1) * 10) (PostListView_get_queryset d now))))))
   \<and> (\<forall>k. request_method request = GET \<and> page request = Some (PageNumber k)
          \<and> (k < 1 \<or> int ((max 1 (length (PostListView_get_queryset d now)) + 9) div 10) < k)
        \<longrightarrow> PostListView_dispatch d now request = Inl Http404)
   \<and> (request_method request = GET \<and> page request = Some PageLast \<longrightarrow>
      PostListView_dispatch d now request
        = Inr (TemplateResponse ''blog/index.html''
                 (IndexContext ((max 1 (length (PostListView_get_queryset d now)) + 9) div 10)
                    (take 10
                       (drop (((max 1 (length (PostListView_get_queryset d now)) + 9) div 10 - 1)
                              * 10)
                          (PostListView_get_queryset d now))))))
   \<and> (request_method request = GET \<and> page request = Some PageInvalid \<longrightarrow>
      PostListView_dispatch d now request = Inl Http404)
   \<and> (request_method request = POST \<longrightarrow>
      PostListView_dispatch d now request = Inr HttpResponseNotAllowed)
   \<and> (\<forall>t n object_list.
        PostListView_dispatch d now request
          = Inr (TemplateResponse t (IndexContext n object_list)) \<longrightarrow>
          sorted_wrt (\<lambda>a b. pub_date (fst b) \<le> pub_date (fst a)) object_list
        \<and> (\<forall>row \<in> set object_list.
              snd row = length (filter (\<lambda>c. comment_post c = post_pk (fst row)) (comments d)))
        \<and> (distinct (map pub_date (posts d)) \<longrightarrow>
              sorted_wrt (\<lambda>a b. pub_date (fst b) < pub_date (fst a)) object_list)
        \<and> length object_list \<le> 10
        \<and> object_list = take 10 (drop ((n - 1) * 10) (PostListView_get_queryset d now)))
   \<and> sorted_wrt (\<lambda>a b. pub_date (fst b) \<le> pub_date (fst a)) (PostListView_get_queryset d now)
   \<and> set (PostListView_get_queryset d now)
       = (\<lambda>p. (p, length (filter (\<lambda>c. comment_post c = post_pk p) (comments d))))
           ` {p \<in> set (posts d). published_filter d now p}
   \<and> length (PostListView_get_queryset d now)
       = length (filter (published_filter d now) (posts d))"
proof (intro conjI allI impI)
  assume "request_method request = GET \<and> page request = None"
  then show "PostListView_dispatch d now request
        = Inr (TemplateResponse ''blog/index.html''
                 (IndexContext 1 (take 10 (PostListView_get_queryset d now))))"
    by (simp add: PostListView_dispatch_def paginate_queryset_default paginate_by_def)
next
  fix k
  assume "request_method request = GET \<and> page request = Some (PageNumber k) \<and> 1 \<le> k
          \<and> k \<le> int ((max 1 (length (PostListView_get_queryset d now)) + 9) div 10)"
  then show "PostListView_dispatch d now request
        = Inr (TemplateResponse ''blog/index.html''
                 (IndexContext (nat k)
                    (take 10 (drop ((nat k - 1) * 10) (PostListView_get_queryset d now)))))"
    by (simp add: PostListView_dispatch_def paginate_queryset_number)
next
  fix k
  assume "request_method request = GET \<and> page request = Some (PageNumber k)
          \<and> (k < 1 \<or> int ((max 1 (length (PostListView_get_queryset d now)) + 9) div 10) < k)"
  then show "PostListView_dispatch d now request = Inl Http404"
    by (simp add: PostListView_dispatch_def paginate_queryset_out_of_range)
next
  assume "request_method request = GET \<and> page request = Some PageLast"
  then show "PostListView_dispatch d now request
        = Inr (TemplateResponse ''blog/index.html''
                 (IndexContext ((max 1 (length (PostListView_get_queryset d now)) + 9) div 10)
                    (take 10
                       (drop (((max 1 (length (PostListView_get_queryset d now)) + 9) div 10 - 1)
                              * 10)
                          (PostListView_get_queryset d now)))))"
    by (simp add: PostListView_dispatch_def paginate_queryset_last)
next
  assume "request_method request = GET \<and> page request = Some PageInvalid"
  then show "PostListView_dispatch d now request = Inl Http404"
    by (simp add: PostListView_dispatch_def paginate_queryset_invalid)
next
  assume "request_method request = POST"
  then show "PostListView_dispatch d now request = Inr HttpResponseNotAllowed"
    by (simp add: PostListView_dispatch_def)
next
  fix t n object_list
  assume run: "PostListView_dispatch d now request
          = Inr (TemplateResponse t (IndexContext n object_list))"
  then have "paginate_queryset (PostListView_get_queryset d now) request = Inr (n, object_list)"
    by (auto simp: PostListView_dispatch_def split: http_method.splits sum.splits)
  then have slice: "object_list = take 10 (drop ((n - 1) * 10) (PostListView_get_queryset d now))"
    by (auto dest: paginate_queryset_page simp: paginate_by_def)
  show "object_list = take 10 (drop ((n - 1) * 10) (PostListView_get_queryset d now))"
    by (rule slice)
  show "length object_list \<le> 10"
    by (subst slice) simp
  show "sorted_wrt (\<lambda>a b. pub_date (fst b) \<le> pub_date (fst a)) object_list"
    by (subst slice) (intro sorted_wrt_take sorted_wrt_drop PostListView_queryset_sorted)
  show "sorted_wrt (\<lambda>a b. pub_date (fst b) < pub_date (fst a)) object_list"
    if "distinct (map pub_date (posts d))"
    by (subst slice)
       (intro sorted_wrt_take sorted_wrt_drop PostListView_queryset_strict [OF that])
  show "\<forall>row \<in> set object_list.
          snd row = length (filter (\<lambda>c. comment_post c = post_pk (fst row)) (comments d))"
  proof
    fix row assume "row \<in> set object_list"
    then have "row \<in> set (PostListView_get_queryset d now)"
      by (subst (asm) slice) (auto dest: in_set_takeD in_set_dropD)
    then have "row \<in> set (PostListMixin_get_queryset d)"
      by (simp add: PostListView_get_queryset_def)
    then show "snd row = length (filter (\<lambda>c. comment_post c = post_pk (fst row)) (comments d))"
      by (simp add: PostListMixin_queryset_annotated comment_count_def post_comments_def)
  qed
next
  show "sorted_wrt (\<lambda>a b. pub_date (fst b) \<le> pub_date (fst a)) (PostListView_get_queryset d now)"
    by (rule PostListView_queryset_sorted)
next
  show "set (PostListView_get_queryset d now)
       = (\<lambda>p. (p, length (filter (\<lambda>c. comment_post c = post_pk p) (comments d))))
           ` {p \<in> set (posts d). published_filter d now p}"
    by (rule PostListView_queryset_set)
next
  show "length (PostListView_get_queryset d now)
       = length (filter (published_filter d now) (posts d))"
    by (rule PostListView_queryset_length)
qed

theorem home_feed_ordered_annotated_paginated_witness:
  "request_method (get_page (Some (PageNumber 2))) = GET
   \<and> page (get_page (Some (PageNumber 2))) = Some (PageNumber 2)
   \<and> (2::int) \<le> int ((max 1 (length (PostListView_get_queryset feed_db 100)) + 9) div 10)
   \<and> distinct (map pub_date (posts feed_db))
   \<and> PostListView_dispatch feed_db 100 (get_page None)
       = Inr (TemplateResponse ''blog/index.html''
               (IndexContext 1
                  [(feed_post 12, 0), (feed_post 11, 0), (feed_post 10, 0), (feed_post 9, 0),
                   (feed_post 8, 0), (feed_post 7, 0), (feed_post 6, 0), (feed_post 5, 0),
                   (feed_post 4, 0), (feed_post 3, 0)]))
   \<and> PostListView_dispatch feed_db 100 (get_page (Some (PageNumber 2)))
       = Inr (TemplateResponse ''blog/index.html''
               (IndexContext 2 [(feed_post 2, 1), (feed_post 1, 0)]))
   \<and> PostListView_dispatch feed_db 100 (get_page (Some PageLast))
       = Inr (TemplateResponse ''blog/index.html''
               (IndexContext 2 [(feed_post 2, 1), (feed_post 1, 0)]))
   \<and> PostListView_dispatch feed_db 100 (get_page (Some (PageNumber 3))) = Inl Http404
   \<and> PostListView_dispatch feed_db 100 (get_page (Some (PageNumber 0))) = Inl Http404
   \<and> PostListView_dispatch feed_db 100 (get_page (Some PageInvalid)) = Inl Http404
   \<and> PostListView_dispatch feed_db 100 post_page = Inr HttpResponseNotAllowed
   \<and> sorted_wrt (\<lambda>a b. pub_date (fst b) < pub_date (fst a)) [(feed_post 2, 1::nat), (feed_post 1, 0)]
   \<and> length (filter (\<lambda>c. comment_post c = post_pk (feed_post 2)) (comments feed_db)) = 1
   \<and> length (filter (\<lambda>c. comment_post c = post_pk (feed_post 1)) (comments feed_db)) = 0"
proof -
  note q = feed_queryset
  have r: "request_method (get_page a) = GET" "page (get_page a) = a"
    "request_method post_page = POST" for a
    by (simp_all add: get_page_def post_page_def)
  have n: "(2::int) \<le> int ((max 1 (length (PostListView_get_queryset feed_db 100)) + 9) div 10)"
    by (simp add: q)
  have dist: "distinct (map pub_date (posts feed_db))"
    by (simp add: feed_db_def feed_post_fields)
  note first = home_feed_ordered_annotated_paginated
    [where request = "get_page None" and d = feed_db and now = 100, THEN conjunct1]
  note numbered = home_feed_ordered_annotated_paginated
    [where d = feed_db and now = 100, THEN conjunct2, THEN conjunct1, rule_format]
  note outside = home_feed_ordered_annotated_paginated
    [where d = feed_db and now = 100, THEN conjunct2, THEN conjunct2, THEN conjunct1,
     rule_format]
  note last = home_feed_ordered_annotated_paginated
    [where request = "get_page (Some PageLast)" and d = feed_db and now = 100,
     THEN conjunct2, THEN conjunct2, THEN conjunct2, THEN conjunct1]
  note invalid = home_feed_ordered_annotated_paginated
    [where request = "get_page (Some PageInvalid)" and d = feed_db and now = 100,
     THEN conjunct2, THEN conjunct2, THEN conjunct2, THEN conjunct2, THEN conjunct1]
  note not_allowed = home_feed_ordered_annotated_paginated
    [where request = post_page and d = feed_db and now = 100,
     THEN conjunct2, THEN conjunct2, THEN conjunct2, THEN conjunct2, THEN conjunct2,
     THEN conjunct1]
  note returned = home_feed_ordered_annotated_paginated
    [where request = "get_page (Some (PageNumber 2))" and d = feed_db and now = 100,
     THEN conjunct2, THEN conjunct2, THEN conjunct2, THEN conjunct2, THEN conjunct2,
     THEN conjunct2, THEN conjunct1, rule_format]
  have p1: "PostListView_dispatch feed_db 100 (get_page None)
       = Inr (TemplateResponse ''blog/index.html''
               (IndexContext 1
                  [(feed_post 12, 0), (feed_post 11, 0), (feed_post 10, 0), (feed_post 9, 0),
                   (feed_post 8, 0), (feed_post 7, 0), (feed_post 6, 0), (feed_post 5, 0),
                   (feed_post 4, 0), (feed_post 3, 0)]))"
    using first by (simp add: r q)
  have p2: "PostListView_dispatch feed_db 100 (get_page (Some (PageNumber 2)))
       = Inr (TemplateResponse ''blog/index.html''
               (IndexContext 2 [(feed_post 2, 1), (feed_post 1, 0)]))"
    using numbered [of "get_page (Some (PageNumber 2))" 2] by (simp add: r q)
  have pl: "PostListView_dispatch feed_db 100 (get_page (Some PageLast))
       = Inr (TemplateResponse ''blog/index.html''
               (IndexContext 2 [(feed_post 2, 1), (feed_post 1, 0)]))"
    using last by (simp add: r q)
  have p3: "PostListView_dispatch feed_db 100 (get_page (Some (PageNumber 3))) = Inl Http404"
    using outside [of "get_page (Some (PageNumber 3))" 3] by (simp add: r q)
  have p0: "PostListView_dispatch feed_db 100 (get_page (Some (PageNumber 0))) = Inl Http404"
    using outside [of "get_page (Some (PageNumber 0))" 0] by (simp add: r q)
  have pi: "PostListView_dispatch feed_db 100 (get_page (Some PageInvalid)) = Inl Http404"
    using invalid by (simp add: r)
  have pp: "PostListView_dispatch feed_db 100 post_page = Inr HttpResponseNotAllowed"
    using not_allowed by (simp add: r)
  from returned [OF p2] dist
  have props: "sorted_wrt (\<lambda>a b. pub_date (fst b) < pub_date (fst a))
                 [(feed_post 2, 1::nat), (feed_post 1, 0)]
     \<and> (\<forall>row \<in> set [(feed_post 2, 1::nat), (feed_post 1, 0)].
         snd row = length (filter (\<lambda>c. comment_post c = post_pk (fst row)) (comments feed_db)))"
    by blast
  then have counts:
    "length (filter (\<lambda>c. comment_post c = post_pk (feed_post 2)) (comments feed_db)) = 1"
    "length (filter (\<lambda>c. comment_post c = post_pk (feed_post 1)) (comments feed_db)) = 0"
    by auto
  from r n dist p1 p2 pl p3 p0 pi pp props counts show ?thesis by blast
qed

section \<open>Editing and deleting\<close>

text \<open>
  C3. An anonymous requester of an edit or a delete is sent to the login page before the
  author check runs. The post views inherit \<open>IsAuthorMixin\<close> before
  \<open>LoginRequiredMixin\<close>, so the author check answers first and sends the anonymous
  requester to the detail page of the post.
\<close>

theorem anonymous_post_edit_redirects_to_detail:
  "user anonymous_post = None
   \<and> PostUpdateView_dispatch nonempty set_text example_db anonymous_post 5
       = Inr (HttpResponseRedirect (Url_post_detail 5), example_db)
   \<and> PostDeleteView_dispatch example_db anonymous_post 5
       = Inr (HttpResponseRedirect (Url_post_detail 5), example_db)"
  by (simp add: example_defs view_defs)

text \<open>
  C4. An authenticated user who edits or deletes a comment of somebody else is redirected to
  the detail page of the post of the comment. \<open>IsAuthorMixin\<close> builds the URL from the
  key of the loaded object, which for these views is the comment: comment 3 of post 5 sends
  alice to the detail page of a post 3.
\<close>

theorem comment_edit_redirects_to_comment_key:
  "get_comment example_db 3 = Some draft_comment \<and> comment_post draft_comment = 5
   \<and> comment_author draft_comment \<noteq> user_pk alice \<and> user alice_post = Some alice
   \<and> CommentUpdateView_dispatch nonempty example_db alice_post 5 3
       = Inr (HttpResponseRedirect (Url_post_detail 3), example_db)
   \<and> CommentDeleteView_dispatch example_db alice_post 5 3
       = Inr (HttpResponseRedirect (Url_post_detail 3), example_db)"
  by (simp add: example_defs view_defs)

text \<open>
  C5. An edit or a delete of a post or of a comment by an authenticated user who is not its
  author leaves the database as it was and is answered with a redirect to a post detail URL.
\<close>

theorem non_author_edit_delete_leaves_rows_unchanged:
  fixes request :: "'d request" and crequest :: "string request"
  shows
  "(\<forall>u p. user request = Some u \<and> get_post d post_id = Some p \<and> author p \<noteq> user_pk u \<longrightarrow>
       PostUpdateView_dispatch is_valid construct d request post_id
         = Inr (HttpResponseRedirect (Url_post_detail post_id), d)
     \<and> PostDeleteView_dispatch d request post_id
         = Inr (HttpResponseRedirect (Url_post_detail post_id), d))
   \<and> (\<forall>u c. user crequest = Some u \<and> get_comment d comment_id = Some c
           \<and> comment_author c \<noteq> user_pk u \<longrightarrow>
       (\<exists>k. CommentUpdateView_dispatch cvalid d crequest post_id comment_id
               = Inr (HttpResponseRedirect (Url_post_detail k), d))
     \<and> (\<exists>k. CommentDeleteView_dispatch d crequest post_id comment_id
               = Inr (HttpResponseRedirect (Url_post_detail k), d)))"
  by (auto simp: PostUpdateView_dispatch_def PostDeleteView_dispatch_def
        CommentUpdateView_dispatch_def CommentDeleteView_dispatch_def
        IsAuthorMixin_dispatch_def LoginRequiredMixin_dispatch_def get_object_or_404_def
        request_user_pk_def dest: get_post_Some)

theorem non_author_edit_delete_leaves_rows_unchanged_witness:
  "user alice_post = Some alice \<and> get_post example_db 5 = Some draft_post
   \<and> author draft_post \<noteq> user_pk alice
   \<and> get_comment example_db 3 = Some draft_comment
   \<and> comment_author draft_comment \<noteq> user_pk alice
   \<and> PostUpdateView_dispatch nonempty set_text example_db alice_post 5
       = Inr (HttpResponseRedirect (Url_post_detail 5), example_db)
   \<and> PostDeleteView_dispatch example_db alice_post 5
       = Inr (HttpResponseRedirect (Url_post_detail 5), example_db)
   \<and> (\<exists>k. CommentUpdateView_dispatch nonempty example_db alice_post 5 3
             = Inr (HttpResponseRedirect (Url_post_detail k), example_db))
   \<and> (\<exists>k. CommentDeleteView_dispatch example_db alice_post 5 3
             = Inr (HttpResponseRedirect (Url_post_detail k), example_db))"
proof -
  have h: "user alice_post = Some alice" "get_post example_db 5 = Some draft_post"
    "author draft_post \<noteq> user_pk alice" "get_comment example_db 3 = Some draft_comment"
    "comment_author draft_comment \<noteq> user_pk alice"
    by (simp_all add: example_defs get_post_def get_comment_def)
  note t = non_author_edit_delete_leaves_rows_unchanged
    [where request = alice_post and crequest = alice_post and d = example_db
       and post_id = 5 and comment_id = 3 and is_valid = nonempty and construct = set_text
       and cvalid = nonempty]
  from t h show ?thesis by blast
qed

section \<open>Creating a comment\<close>

text \<open>
  C9. An authenticated user who submits a valid comment to an existing post adds exactly one
  row to the comments, with a new key, the user as author and the post of the URL as post,
  and is redirected to the detail page of that post.
\<close>

theorem comment_create_persists_one_comment:
  assumes "user request = Some u" and "request_method request = POST"
    and "is_valid (form_data request)" and "get_post d post_id = Some p"
  shows "\<exists>c. CommentCreateView_dispatch is_valid d now request post_id
               = Inr (HttpResponseRedirect (Url_post_detail post_id),
                      d\<lparr>comments := comments d @ [c]\<rparr>)
           \<and> comment_author c = user_pk u \<and> comment_post c = post_id
           \<and> comment_text c = form_data request
           \<and> comment_pk c \<notin> comment_pk ` set (comments d)"
proof -
  from assms(4) have pk: "post_pk p = post_id" by (simp add: get_post_Some)
  have fresh: "new_pk (map comment_pk (comments d)) \<notin> comment_pk ` set (comments d)"
    using new_pk_fresh [of "map comment_pk (comments d)"] by simp
  let ?c = "\<lparr>comment_pk = new_pk (map comment_pk (comments d)),
              comment_text = form_data request, created_at = now,
              comment_author = user_pk u, comment_post = post_pk p\<rparr>"
  have "CommentCreateView_dispatch is_valid d now request post_id
          = Inr (HttpResponseRedirect (Url_post_detail post_id),
                 d\<lparr>comments := comments d @ [?c]\<rparr>)"
    using assms pk
    by (simp add: CommentCreateView_dispatch_def CommentCreateView_handler_def
          LoginRequiredMixin_dispatch_def get_object_or_404_def)
  with pk fresh show ?thesis
    by (intro exI [of _ ?c]) simp
qed

theorem comment_create_persists_one_comment_witness:
  "user alice_post = Some alice \<and> request_method alice_post = POST
   \<and> nonempty (form_data alice_post) \<and> get_post example_db 5 = Some draft_post
   \<and> (\<exists>c. CommentCreateView_dispatch nonempty example_db 200 alice_post 5
               = Inr (HttpResponseRedirect (Url_post_detail 5),
                      example_db\<lparr>comments := comments example_db @ [c]\<rparr>)
           \<and> comment_author c = user_pk alice \<and> comment_post c = 5
           \<and> comment_text c = form_data alice_post
           \<and> comment_pk c \<notin> comment_pk ` set (comments example_db))"
proof -
  have h: "user alice_post = Some alice" "request_method alice_post = POST"
    "nonempty (form_data alice_post)" "get_post example_db 5 = Some draft_post"
    by (simp_all add: example_defs get_post_def)
  note t = comment_create_persists_one_comment
    [where request = alice_post and u = alice and is_valid = nonempty and d = example_db
       and post_id = 5 and p = draft_post and now = 200]
  from t h show ?thesis by blast
qed



end
